theory Spec2Isabelle
  imports Main
begin

section \<open>Data model\<close>

text \<open>
  The result record of \<^verbatim>\<open>types.ts\<close> (interface \<^verbatim>\<open>GeneratedImage\<close>), field by field.
  The field \<^verbatim>\<open>id\<close> is written \<open>id_field\<close>, since \<open>id\<close> is the identity function of HOL.
  \<^verbatim>\<open>timestamp\<close> holds a value of \<^verbatim>\<open>Date.now()\<close>, an integral number of milliseconds.
\<close>

record GeneratedImage =
  id_field :: string
  base64 :: string
  prompt :: string
  timestamp :: int
  selected :: bool
  aspectRatio :: string

text \<open>
  A JavaScript object, seen as the list of its own properties in the order of the object
  literal that creates it: only what is needed to speak about which keys a returned
  \<^verbatim>\<open>GeneratedImage\<close> has.
\<close>

datatype js_value = JString string | JNumber int | JBoolean bool

text \<open>
  The provider's response, as far as \<^verbatim>\<open>generateSingleImage\<close> reads it. Every property
  is optional in the client library's types, hence the \<open>option\<close>s: \<open>None\<close> is
  \<^verbatim>\<open>undefined\<close>. \<^verbatim>\<open>text\<close> is written \<open>part_text\<close>.
\<close>

record Blob =
  mimeType :: "string option"
  data :: "string option"

record Part =
  part_text :: "string option"
  inlineData :: "Blob option"

record Content =
  parts :: "Part list option"

record Candidate =
  content :: "Content option"

record GenerateContentResponse =
  candidates :: "Candidate list option"

text \<open>
  The request of lines 42--54: the model identifier, the text of the single part of
  \<^verbatim>\<open>contents\<close>, and the two fields of \<^verbatim>\<open>config.imageConfig\<close>.
\<close>

record GenerateContentParameters =
  model :: string
  contents_text :: string
  imageConfig_aspectRatio :: string
  imageConfig_imageSize :: string

text \<open>
  A thrown JavaScript value. An object is seen through its \<^verbatim>\<open>message\<close> property, the
  only thing the code reads of it (\<open>None\<close>: the object has no such property);
  \<^verbatim>\<open>new Error(m)\<close> is \<open>Error (Some m)\<close>. \<^verbatim>\<open>undefined\<close> and \<^verbatim>\<open>null\<close> can be thrown too,
  and have no properties to read.
\<close>

datatype js_error = Error "string option" | ThrownUndefined | ThrownNull

text \<open>How the promise of \<^verbatim>\<open>ai.models.generateContent\<close> settles.\<close>

datatype provider_outcome = Resolves GenerateContentResponse | Rejects js_error

text \<open>
  What one call of \<^verbatim>\<open>generateSingleImage\<close> takes from outside the program: the provider
  (which settles the request it is given), the string \<^verbatim>\<open>generateId()\<close> returns
  (\<^verbatim>\<open>Math.random()\<close> in base 36) and the value of \<^verbatim>\<open>Date.now()\<close>.
\<close>

record call_env =
  generateContent :: "GenerateContentParameters \<Rightarrow> provider_outcome"
  generateId :: string
  date_now :: int

section \<open>The single-item generator\<close>

text \<open>
  \<^verbatim>\<open>generateSingleImage\<close> of \<^verbatim>\<open>services/geminiService.ts\<close> (the specification's
  \<^verbatim>\<open>generateOne\<close>); the line numbers are those of that file. The client of line 30 is taken to be constructed; what is written to the
  console is not part of the model.
\<close>

text \<open>Lines 37--39. A string is truthy when it is not empty.\<close>

definition fullPrompt :: "string \<Rightarrow> string \<Rightarrow> string" where
  "fullPrompt systemInstruction ptext =
     (if systemInstruction \<noteq> []
      then systemInstruction @ [CHR 0x0A, CHR 0x0A] @ ''User Request: '' @ ptext
      else ptext)"

text \<open>Lines 42--54: the argument of \<^verbatim>\<open>generateContent\<close>.\<close>

definition request :: "string \<Rightarrow> string \<Rightarrow> string \<Rightarrow> GenerateContentParameters" where
  "request ptext systemInstruction ratio =
     \<lparr>model = ''gemini-3-pro-image-preview'',
      contents_text = fullPrompt systemInstruction ptext,
      imageConfig_aspectRatio = ratio,
      imageConfig_imageSize = ''1K''\<rparr>"

text \<open>
  Line 61, \<^verbatim>\<open>part.inlineData && part.inlineData.data\<close>: the payload of a part when the
  condition is truthy (inline data present, with a non-empty \<^verbatim>\<open>data\<close>), \<open>None\<close>
  otherwise. The MIME type is not read.
\<close>

definition inline_payload :: "Part \<Rightarrow> string option" where
  "inline_payload part =
     (case inlineData part of
        None \<Rightarrow> None
      | Some blob \<Rightarrow>
          (case data blob of
             None \<Rightarrow> None
           | Some d \<Rightarrow> if d \<noteq> [] then Some d else None))"

text \<open>Lines 60--65: the loop over the parts, leaving at the first payload.\<close>

fun scan_parts :: "string \<Rightarrow> Part list \<Rightarrow> string" where
  "scan_parts base64Data [] = base64Data"
| "scan_parts base64Data (part # rest) =
     (case inline_payload part of
        Some d \<Rightarrow> d
      | None \<Rightarrow> scan_parts base64Data rest)"

text \<open>
  The messages of the \<^verbatim>\<open>TypeError\<close>s that reading a property of \<^verbatim>\<open>undefined\<close> or of
  \<^verbatim>\<open>null\<close> raises are the engine's; V8's wording is taken. Nothing below depends on the
  wording, only on its being non-empty.
\<close>

definition typeError_message :: "string \<Rightarrow> string \<Rightarrow> string" where
  "typeError_message base property =
     ''Cannot read properties of '' @ base @ '' (reading '' @ [CHR 0x27] @ property @ [CHR 0x27] @ '')''"

text \<open>
  Lines 56--66: \<^verbatim>\<open>base64Data\<close> after the \<^verbatim>\<open>if\<close>. \<^verbatim>\<open>response.candidates\<close> absent is
  falsy and skips the loop; present, its element 0 is read without a check, and so is
  \<^verbatim>\<open>content\<close>: on an empty candidate list or a candidate without content the property
  access throws. A \<^verbatim>\<open>parts\<close> array is truthy even when empty.
\<close>

definition parse_response :: "GenerateContentResponse \<Rightarrow> js_error + string" where
  "parse_response response =
     (case candidates response of
        None \<Rightarrow> Inr []
      | Some cs \<Rightarrow>
          (case cs of
             [] \<Rightarrow> Inl (Error (Some (typeError_message ''undefined'' ''content'')))
           | c # _ \<Rightarrow>
               (case content c of
                  None \<Rightarrow> Inl (Error (Some (typeError_message ''undefined'' ''parts'')))
                | Some ct \<Rightarrow>
                    (case parts ct of
                       None \<Rightarrow> Inr []
                     | Some ps \<Rightarrow> Inr (scan_parts [] ps)))))"

text \<open>Lines 41--79: the body of the \<^verbatim>\<open>try\<close> block; \<open>Inl\<close> is a value thrown inside it.\<close>

definition try_block :: "call_env \<Rightarrow> string \<Rightarrow> string \<Rightarrow> string \<Rightarrow> js_error + GeneratedImage" where
  "try_block env ptext systemInstruction ratio =
     (case generateContent env (request ptext systemInstruction ratio) of
        Rejects e \<Rightarrow> Inl e
      | Resolves response \<Rightarrow>
          (case parse_response response of
             Inl e \<Rightarrow> Inl e
           | Inr base64Data \<Rightarrow>
               if base64Data = []
               then Inl (Error (Some ''No image data found in response''))
               else Inr \<lparr>id_field = generateId env,
                         base64 = ''data:image/png;base64,'' @ base64Data,
                         prompt = ptext,
                         timestamp = date_now env,
                         selected = False,
                         aspectRatio = ratio\<rparr>))"

text \<open>
  Lines 81--84: the \<^verbatim>\<open>catch\<close> clause throws a new error that carries the message of the
  caught value, or the fallback when that message is absent or empty. When the caught
  value is \<^verbatim>\<open>undefined\<close> or \<^verbatim>\<open>null\<close>, reading \<^verbatim>\<open>error.message\<close> at line 83 throws a
  \<^verbatim>\<open>TypeError\<close>, and this is what leaves the function.
\<close>

fun rethrow :: "js_error \<Rightarrow> js_error" where
  "rethrow (Error None) = Error (Some ''Failed to generate image'')"
| "rethrow (Error (Some m)) = Error (Some (if m \<noteq> [] then m else ''Failed to generate image''))"
| "rethrow ThrownUndefined = Error (Some (typeError_message ''undefined'' ''message''))"
| "rethrow ThrownNull = Error (Some (typeError_message ''null'' ''message''))"

definition generateSingleImage :: "call_env \<Rightarrow> string \<Rightarrow> string \<Rightarrow> string \<Rightarrow> js_error + GeneratedImage" where
  "generateSingleImage env ptext systemInstruction ratio =
     (case try_block env ptext systemInstruction ratio of
        Inl error \<Rightarrow> Inl (rethrow error)
      | Inr img \<Rightarrow> Inr img)"

text \<open>The own properties of the object literal of lines 72--79, in its order.\<close>

definition properties :: "GeneratedImage \<Rightarrow> (string \<times> js_value) list" where
  "properties img =
     [(''id'', JString (id_field img)),
      (''base64'', JString (base64 img)),
      (''prompt'', JString (prompt img)),
      (''timestamp'', JNumber (timestamp img)),
      (''selected'', JBoolean (selected img)),
      (''aspectRatio'', JString (aspectRatio img))]"

section \<open>The batch orchestrator\<close>

text \<open>
  \<^verbatim>\<open>generateBatchImages\<close> of the same file (the specification's \<^verbatim>\<open>generateBatch\<close>).
  \<open>count\<close> is a natural number, as the specification has it, and is the length of the
  array of line 102. The \<open>count\<close> workers run on one thread: each runs up to its
  \<^verbatim>\<open>await\<close> when the array is built, and from there to its end, without a further
  \<^verbatim>\<open>await\<close>, when its provider call has settled.
\<close>

text \<open>
  \<^verbatim>\<open>onProgress\<close> is the caller's function and may do anything, also throw. It is given
  the arguments of its earlier invocations (so that it may behave differently from one
  call to the next) and the argument of this one; \<open>None\<close> is a normal return,
  \<open>Some e\<close> throws \<open>e\<close>.
\<close>

type_synonym callback = "nat list \<Rightarrow> nat \<Rightarrow> js_error option"

text \<open>
  One promise of the array built at line 102. It fulfils with the image or with
  \<^verbatim>\<open>null\<close> (\<open>None\<close>), or rejects.
\<close>

datatype promise = Pending | Fulfilled "GeneratedImage option" | Rejected js_error

text \<open>
  The state the \<open>count\<close> asynchronous workers share: the counter of line 99, the
  arguments \<^verbatim>\<open>onProgress\<close> has been invoked with so far (its observable trace), the
  promise array, and the rejection of \<^verbatim>\<open>Promise.all\<close>, which rejects with the reason of
  the first of its promises to reject and ignores what settles later.
\<close>

record batch_state =
  completed :: nat
  progress_calls :: "nat list"
  promises :: "promise list"
  all_rejected :: "js_error option"

definition initial_state :: "nat \<Rightarrow> batch_state" where
  "initial_state count =
     \<lparr>completed = 0, progress_calls = [], promises = replicate count Pending,
      all_rejected = None\<rparr>"

text \<open>\<^verbatim>\<open>completed++; onProgress(completed)\<close>: the outcome of the call and the state after.\<close>

definition count_and_report :: "callback \<Rightarrow> batch_state \<Rightarrow> js_error option \<times> batch_state" where
  "count_and_report onProgress st =
     (let c = completed st + 1
      in (onProgress (progress_calls st) c,
          st\<lparr>completed := c, progress_calls := progress_calls st @ [c]\<rparr>))"

text \<open>Lines 108--113: the \<^verbatim>\<open>catch\<close> clause of a worker. What it throws rejects the worker.\<close>

definition worker_catch :: "callback \<Rightarrow> batch_state \<Rightarrow> promise \<times> batch_state" where
  "worker_catch onProgress st =
     (case count_and_report onProgress st of
        (None, st') \<Rightarrow> (Fulfilled None, st')
      | (Some e, st') \<Rightarrow> (Rejected e, st'))"

text \<open>
  Lines 103--113: a worker from the moment its \<^verbatim>\<open>await\<close> settles with \<open>r\<close>. The call
  of \<^verbatim>\<open>onProgress\<close> at line 106 is inside the \<^verbatim>\<open>try\<close> block, so what it throws is
  caught at line 108 like a failed generation.
\<close>

definition worker :: "callback \<Rightarrow> js_error + GeneratedImage \<Rightarrow> batch_state \<Rightarrow> promise \<times> batch_state" where
  "worker onProgress r st =
     (case r of
        Inr img \<Rightarrow>
          (case count_and_report onProgress st of
             (None, st') \<Rightarrow> (Fulfilled (Some img), st')
           | (Some e, st') \<Rightarrow> worker_catch onProgress st')
      | Inl e \<Rightarrow> worker_catch onProgress st)"

text \<open>
  The provider call of worker \<open>i\<close> settles: the worker runs to its end (nothing in it
  awaits again), its promise settles, and \<^verbatim>\<open>Promise.all\<close> rejects if this is the first
  rejection.
\<close>

definition settle ::
  "(nat \<Rightarrow> call_env) \<Rightarrow> callback \<Rightarrow> string \<Rightarrow> string \<Rightarrow> string \<Rightarrow> batch_state \<Rightarrow> nat \<Rightarrow> batch_state" where
  "settle env onProgress ptext systemInstruction ratio st i =
     (case worker onProgress (generateSingleImage (env i) ptext systemInstruction ratio) st of
        (p, st') \<Rightarrow>
          st'\<lparr>promises := (promises st')[i := p],
              all_rejected :=
                (case all_rejected st' of
                   Some e \<Rightarrow> Some e
                 | None \<Rightarrow> (case p of Rejected e \<Rightarrow> Some e | _ \<Rightarrow> None))\<rparr>)"

text \<open>
  The workers are launched in request order (worker \<open>i\<close> is element \<open>i\<close> of the array)
  and settle in the order the schedule \<open>sched\<close> lists them.
\<close>

definition run_batch ::
  "(nat \<Rightarrow> call_env) \<Rightarrow> callback \<Rightarrow> string \<Rightarrow> string \<Rightarrow> nat \<Rightarrow> string \<Rightarrow> nat list \<Rightarrow> batch_state" where
  "run_batch env onProgress ptext systemInstruction count ratio sched =
     foldl (settle env onProgress ptext systemInstruction ratio) (initial_state count) sched"

text \<open>The values \<^verbatim>\<open>Promise.all\<close> fulfils with, once every promise is fulfilled.\<close>

fun all_values :: "promise list \<Rightarrow> GeneratedImage option list option" where
  "all_values [] = Some []"
| "all_values (p # ps) =
     (case p of
        Fulfilled v \<Rightarrow> map_option ((#) v) (all_values ps)
      | _ \<Rightarrow> None)"

text \<open>Lines 119--121: \<^verbatim>\<open>results\<close> after the \<^verbatim>\<open>forEach\<close>.\<close>

fun collect :: "GeneratedImage list \<Rightarrow> GeneratedImage option list \<Rightarrow> GeneratedImage list" where
  "collect results [] = results"
| "collect results (res # rest) =
     collect (case res of Some img \<Rightarrow> results @ [img] | None \<Rightarrow> results) rest"

text \<open>
  What the caller of \<^verbatim>\<open>generateBatchImages\<close> gets: \<open>None\<close> while the promise is pending,
  \<open>Some (Inl e)\<close> when it has rejected with \<open>e\<close>, \<open>Some (Inr imgs)\<close> when it has
  resolved with \<open>imgs\<close>.
\<close>

definition batch_outcome :: "batch_state \<Rightarrow> (js_error + GeneratedImage list) option" where
  "batch_outcome st =
     (case all_rejected st of
        Some e \<Rightarrow> Some (Inl e)
      | None \<Rightarrow>
          (case all_values (promises st) of
             None \<Rightarrow> None
           | Some settledResults \<Rightarrow> Some (Inr (collect [] settledResults))))"

definition generateBatchImages ::
  "(nat \<Rightarrow> call_env) \<Rightarrow> callback \<Rightarrow> string \<Rightarrow> string \<Rightarrow> nat \<Rightarrow> string \<Rightarrow> nat list
     \<Rightarrow> (js_error + GeneratedImage list) option" where
  "generateBatchImages env onProgress ptext systemInstruction count ratio sched =
     batch_outcome (run_batch env onProgress ptext systemInstruction count ratio sched)"

section \<open>Notions of the specification\<close>

text \<open>The value a worker fulfils with when \<^verbatim>\<open>onProgress\<close> returns: the image, or \<^verbatim>\<open>null\<close>.\<close>

definition fulfilment :: "js_error + GeneratedImage \<Rightarrow> GeneratedImage option" where
  "fulfilment r = (case r of Inr img \<Rightarrow> Some img | Inl e \<Rightarrow> None)"

text \<open>The images of the successful generations among the workers \<open>idxs\<close>, in the order of \<open>idxs\<close>.\<close>

definition successes ::
  "(nat \<Rightarrow> call_env) \<Rightarrow> string \<Rightarrow> string \<Rightarrow> string \<Rightarrow> nat list \<Rightarrow> GeneratedImage list" where
  "successes env ptext systemInstruction ratio idxs =
     List.map_filter (\<lambda>i. fulfilment (generateSingleImage (env i) ptext systemInstruction ratio)) idxs"

text \<open>
  Settlement order, in the specification's words ``the subset of successful results, in
  the order they settled'': the successes along the schedule. Request order: the
  successes along the indices of the launched workers.
\<close>

definition settlement_order ::
  "(nat \<Rightarrow> call_env) \<Rightarrow> string \<Rightarrow> string \<Rightarrow> string \<Rightarrow> nat list \<Rightarrow> GeneratedImage list" where
  "settlement_order env ptext systemInstruction ratio sched =
     successes env ptext systemInstruction ratio sched"

definition request_order ::
  "(nat \<Rightarrow> call_env) \<Rightarrow> string \<Rightarrow> string \<Rightarrow> string \<Rightarrow> nat \<Rightarrow> GeneratedImage list" where
  "request_order env ptext systemInstruction ratio count =
     successes env ptext systemInstruction ratio [0..<count]"

text \<open>The number \<open>k\<close> of workers whose generation succeeds.\<close>

definition succeeded :: "js_error + GeneratedImage \<Rightarrow> bool" where
  "succeeded r = (case r of Inr img \<Rightarrow> True | Inl e \<Rightarrow> False)"

definition success_count :: "(nat \<Rightarrow> call_env) \<Rightarrow> string \<Rightarrow> string \<Rightarrow> string \<Rightarrow> nat \<Rightarrow> nat" where
  "success_count env ptext systemInstruction ratio count =
     length (filter (\<lambda>i. succeeded (generateSingleImage (env i) ptext systemInstruction ratio)) [0..<count])"

text \<open>
  Inline image data, in the words of the claims: inline data that declares an image MIME
  type (\<^verbatim>\<open>image/...\<close>) and has a payload. The code does not read the MIME type; this
  notion is here to be compared with what the code accepts, \<open>inline_payload\<close>.
\<close>

definition image_payload :: "Part \<Rightarrow> string option" where
  "image_payload part =
     (case inlineData part of
        None \<Rightarrow> None
      | Some blob \<Rightarrow>
          (case mimeType blob of
             None \<Rightarrow> None
           | Some mime \<Rightarrow> if take 6 mime = ''image/'' then inline_payload part else None))"

definition no_image_data :: "Part list \<Rightarrow> bool" where
  "no_image_data ps = list_all (\<lambda>part. image_payload part = None) ps"

section \<open>An invariant of the promise array\<close>

text \<open>
  The image slot \<open>i\<close> has fulfilled with is the
  result of a successful generation of worker \<open>i\<close>.
\<close>

definition slots_generated ::
  "(nat \<Rightarrow> call_env) \<Rightarrow> string \<Rightarrow> string \<Rightarrow> string \<Rightarrow> batch_state \<Rightarrow> bool" where
  "slots_generated env ptext systemInstruction ratio st =
     (\<forall>i img. i < length (promises st) \<and> promises st ! i = Fulfilled (Some img) \<longrightarrow>
        generateSingleImage (env i) ptext systemInstruction ratio = Inr img)"

section \<open>Concrete inputs\<close>

definition inline_part :: "string \<Rightarrow> string \<Rightarrow> Part" where
  "inline_part mime d =
     \<lparr>part_text = None, inlineData = Some \<lparr>mimeType = Some mime, data = Some d\<rparr>\<rparr>"

definition text_part :: "string \<Rightarrow> Part" where
  "text_part t = \<lparr>part_text = Some t, inlineData = None\<rparr>"

definition response_of :: "Part list \<Rightarrow> GenerateContentResponse" where
  "response_of ps = \<lparr>candidates = Some [\<lparr>content = Some \<lparr>parts = Some ps\<rparr>\<rparr>]\<rparr>"

text \<open>A provider that answers every request with the parts \<open>ps\<close>, and one that fails.\<close>

definition answering_env :: "Part list \<Rightarrow> string \<Rightarrow> int \<Rightarrow> call_env" where
  "answering_env ps ident t =
     \<lparr>generateContent = (\<lambda>req. Resolves (response_of ps)), generateId = ident, date_now = t\<rparr>"

definition failing_env :: call_env where
  "failing_env =
     \<lparr>generateContent = (\<lambda>req. Rejects (Error (Some ''quota exceeded''))),
      generateId = ''k3x9'', date_now = 1700000000000\<rparr>"

text \<open>A provider that rejects every request, with the text it was sent as the message.\<close>

definition echo_env :: call_env where
  "echo_env =
     \<lparr>generateContent = (\<lambda>req. Rejects (Error (Some (contents_text req)))),
      generateId = ''e5c7'', date_now = 1700000000000\<rparr>"

text \<open>
  Two workers that both succeed, with different payloads; worker 1 is the faster one
  (its clock reading is the earlier).
\<close>

definition two_env :: "nat \<Rightarrow> call_env" where
  "two_env i =
     (if i = 0 then answering_env [inline_part ''image/png'' ''AAAA''] ''id0'' 1700000000200
      else answering_env [inline_part ''image/png'' ''BBBB''] ''id1'' 1700000000100)"

text \<open>The scenario of the specification: requests 1 and 3 succeed, request 2 fails.\<close>

definition three_env :: "nat \<Rightarrow> call_env" where
  "three_env i =
     (if i = 0
      then answering_env [text_part ''Here is your cat'', inline_part ''image/png'' ''CCCC'']
             ''a1'' 1700000000300
      else if i = 1 then failing_env
      else answering_env [inline_part ''image/png'' ''DDDD''] ''c3'' 1700000000250)"

definition all_failing_env :: "nat \<Rightarrow> call_env" where
  "all_failing_env i = failing_env"

text \<open>Three callbacks: one that returns, one that throws, one that throws on its first call only.\<close>

definition never_throws :: callback where
  "never_throws h n = None"

definition always_throws :: callback where
  "always_throws h n = Some (Error (Some ''render failed''))"

definition throws_first :: callback where
  "throws_first h n = (if h = [] then Some (Error (Some ''render failed'')) else None)"

section \<open>Auxiliary lemmas\<close>

subsection \<open>The parser\<close>

lemma scan_parts_none:
  "\<forall>part\<in>set ps. inline_payload part = None \<Longrightarrow> scan_parts acc ps = acc"
  by (induction ps) simp_all

lemma scan_parts_first:
  "\<forall>q\<in>set before. inline_payload q = None \<Longrightarrow> inline_payload part = Some d \<Longrightarrow>
   scan_parts acc (before @ part # rest) = d"
  by (induction before) simp_all

lemma scan_parts_payload:
  "scan_parts acc ps = d \<Longrightarrow> d \<noteq> acc \<Longrightarrow>
   \<exists>before part rest. ps = before @ part # rest \<and> (\<forall>q\<in>set before. inline_payload q = None)
      \<and> inline_payload part = Some d"
proof (induction ps)
  case Nil
  then show ?case by simp
next
  case (Cons p ps)
  show ?case
  proof (cases "inline_payload p")
    case None
    with Cons obtain before part rest where
      "ps = before @ part # rest" "\<forall>q\<in>set before. inline_payload q = None"
      "inline_payload part = Some d"
      by auto
    with None have "p # ps = (p # before) @ part # rest
        \<and> (\<forall>q\<in>set (p # before). inline_payload q = None) \<and> inline_payload part = Some d"
      by simp
    then show ?thesis by blast
  next
    case (Some x)
    with Cons.prems have "p # ps = [] @ p # ps \<and> (\<forall>q\<in>set []. inline_payload q = None)
        \<and> inline_payload p = Some d"
      by simp
    then show ?thesis by blast
  qed
qed

lemma scan_parts_found:
  assumes "scan_parts [] ps = d" and "d \<noteq> []"
  obtains before part rest where
    "ps = before @ part # rest" "\<forall>q\<in>set before. inline_payload q = None"
    "inline_payload part = Some d"
  using scan_parts_payload [OF assms] by blast

lemma generateSingleImage_Inr:
  assumes "generateSingleImage env ptext sys ratio = Inr img"
  obtains response d where
    "generateContent env (request ptext sys ratio) = Resolves response"
    "parse_response response = Inr d" "d \<noteq> []"
    "img = \<lparr>id_field = generateId env, base64 = ''data:image/png;base64,'' @ d,
            prompt = ptext, timestamp = date_now env, selected = False, aspectRatio = ratio\<rparr>"
  using assms
  by (auto simp: generateSingleImage_def try_block_def
      split: sum.splits provider_outcome.splits if_splits)

subsection \<open>A callback that returns\<close>

lemma count_and_report_returns:
  "\<forall>h n. cb h n = None \<Longrightarrow>
   count_and_report cb st =
     (None, st\<lparr>completed := Suc (completed st), progress_calls := progress_calls st @ [Suc (completed st)]\<rparr>)"
  by (simp add: count_and_report_def)

lemma worker_returns:
  "\<forall>h n. cb h n = None \<Longrightarrow>
   worker cb r st =
     (Fulfilled (fulfilment r),
      st\<lparr>completed := Suc (completed st), progress_calls := progress_calls st @ [Suc (completed st)]\<rparr>)"
  by (cases r) (simp_all add: worker_def worker_catch_def count_and_report_returns fulfilment_def)

lemma settle_returns:
  "\<forall>h n. cb h n = None \<Longrightarrow>
   settle env cb p s r st i =
     st\<lparr>completed := Suc (completed st),
        progress_calls := progress_calls st @ [Suc (completed st)],
        promises := (promises st)[i := Fulfilled (fulfilment (generateSingleImage (env i) p s r))],
        all_rejected := all_rejected st\<rparr>"
  by (simp add: settle_def worker_returns split: option.splits)

lemma foldl_settle_completed:
  "\<forall>h n. cb h n = None \<Longrightarrow>
   completed (foldl (settle env cb p s r) st sched) = completed st + length sched"
  by (induction sched arbitrary: st) (simp_all add: settle_returns)

lemma foldl_settle_progress:
  "\<forall>h n. cb h n = None \<Longrightarrow>
   progress_calls (foldl (settle env cb p s r) st sched) =
     progress_calls st @ [Suc (completed st) ..< Suc (completed st + length sched)]"
proof (induction sched arbitrary: st)
  case Nil
  then show ?case by simp
next
  case (Cons i sched)
  let ?c = "completed st"
  have "[Suc ?c ..< Suc (?c + length (i # sched))] =
          Suc ?c # [Suc (Suc ?c) ..< Suc (Suc ?c + length sched)]"
    by (simp add: upt_conv_Cons del: upt_Suc)
  with Cons show ?case
    by (simp add: settle_returns del: upt_Suc)
qed

lemma foldl_settle_rejected:
  "\<forall>h n. cb h n = None \<Longrightarrow>
   all_rejected (foldl (settle env cb p s r) st sched) = all_rejected st"
  by (induction sched arbitrary: st) (simp_all add: settle_returns)

lemma foldl_settle_promises:
  "\<forall>h n. cb h n = None \<Longrightarrow>
   promises (foldl (settle env cb p s r) st sched) =
     foldl (\<lambda>ps i. ps[i := Fulfilled (fulfilment (generateSingleImage (env i) p s r))]) (promises st) sched"
  by (induction sched arbitrary: st) (simp_all add: settle_returns)

lemma foldl_update_length: "length (foldl (\<lambda>ps i. ps[i := f i]) ps sched) = length ps"
  by (induction sched arbitrary: ps) simp_all

lemma foldl_update_nth:
  "j < length ps \<Longrightarrow>
   foldl (\<lambda>ps i. ps[i := f i]) ps sched ! j = (if j \<in> set sched then f j else ps ! j)"
proof (induction sched arbitrary: ps)
  case Nil
  then show ?case by simp
next
  case (Cons i sched)
  then show ?case by (auto simp: nth_list_update)
qed

lemma foldl_update_all:
  assumes "set sched = {..<n}"
  shows "foldl (\<lambda>ps i. ps[i := f i]) (replicate n x) sched = map f [0..<n]"
proof (rule nth_equalityI)
  show "length (foldl (\<lambda>ps i. ps[i := f i]) (replicate n x) sched) = length (map f [0..<n])"
    by (simp add: foldl_update_length)
next
  fix j assume "j < length (foldl (\<lambda>ps i. ps[i := f i]) (replicate n x) sched)"
  then have j: "j < n" by (simp add: foldl_update_length)
  with assms have "j \<in> set sched" by simp
  with j show "foldl (\<lambda>ps i. ps[i := f i]) (replicate n x) sched ! j = map f [0..<n] ! j"
    by (simp add: foldl_update_nth)
qed

lemma all_values_Fulfilled: "all_values (map (\<lambda>i. Fulfilled (v i)) idxs) = Some (map v idxs)"
  by (induction idxs) simp_all

lemma collect_map_filter: "collect acc vs = acc @ List.map_filter (\<lambda>v. v) vs"
  by (induction vs arbitrary: acc) (simp_all add: List.map_filter_simps split: option.splits)

lemma map_filter_map: "List.map_filter (\<lambda>v. v) (map f xs) = List.map_filter f xs"
  by (simp add: List.map_filter_def comp_def filter_map)

lemma run_batch_returns:
  assumes "\<forall>h n. cb h n = None" and "set sched = {..<count}"
  shows "promises (run_batch env cb p s count r sched) =
           map (\<lambda>i. Fulfilled (fulfilment (generateSingleImage (env i) p s r))) [0..<count]"
    and "all_rejected (run_batch env cb p s count r sched) = None"
    and "completed (run_batch env cb p s count r sched) = length sched"
    and "progress_calls (run_batch env cb p s count r sched) = [1..<Suc (length sched)]"
  using assms
  by (simp_all add: run_batch_def foldl_settle_promises foldl_settle_rejected foldl_settle_completed
        foldl_settle_progress initial_state_def foldl_update_all)

lemma batch_returns:
  assumes "\<forall>h n. cb h n = None" and "set sched = {..<count}"
  shows "generateBatchImages env cb p s count r sched = Some (Inr (successes env p s r [0..<count]))"
  using assms
  by (simp add: generateBatchImages_def batch_outcome_def run_batch_returns all_values_Fulfilled
        collect_map_filter map_filter_map successes_def)

lemma schedule_length: "distinct sched \<Longrightarrow> set sched = {..<count} \<Longrightarrow> length sched = count"
  using distinct_card [of sched] by simp

lemma length_successes: "length (successes env p s r idxs) = length (filter (\<lambda>i. succeeded (generateSingleImage (env i) p s r)) idxs)"
  by (induction idxs) (simp_all add: successes_def List.map_filter_simps fulfilment_def succeeded_def split: sum.splits)

lemma set_successes:
  "set (successes env p s r idxs) = {img. \<exists>i\<in>set idxs. generateSingleImage (env i) p s r = Inr img}"
  by (induction idxs) (auto simp: successes_def List.map_filter_simps fulfilment_def split: sum.splits)

subsection \<open>Any callback\<close>

lemma count_and_report_frame:
  "count_and_report cb st = (t, st') \<Longrightarrow>
   promises st' = promises st \<and> all_rejected st' = all_rejected st"
  by (auto simp: count_and_report_def Let_def)

lemma worker_frame:
  "worker cb r st = (p, st') \<Longrightarrow> promises st' = promises st \<and> all_rejected st' = all_rejected st"
  by (auto simp: worker_def worker_catch_def count_and_report_def Let_def
      split: sum.splits option.splits prod.splits)

lemma worker_image:
  "worker cb r st = (Fulfilled (Some img), st') \<Longrightarrow> r = Inr img"
  by (auto simp: worker_def worker_catch_def count_and_report_def Let_def
      split: sum.splits option.splits prod.splits)

lemma settle_rejected_stable:
  "all_rejected st = Some e \<Longrightarrow> all_rejected (settle env cb p s r st i) = Some e"
  by (auto simp: settle_def dest: worker_frame split: prod.splits)

lemma foldl_settle_rejected_stable:
  "all_rejected st = Some e \<Longrightarrow> all_rejected (foldl (settle env cb p s r) st sched) = Some e"
  by (induction sched arbitrary: st) (simp_all add: settle_rejected_stable)

lemma all_values_Some: "all_values ps = Some vs \<Longrightarrow> ps = map Fulfilled vs"
  by (induction ps arbitrary: vs) (auto split: promise.splits)

lemma settle_promises:
  "worker cb (generateSingleImage (env j) p s r) st = (q, st') \<Longrightarrow>
   promises (settle env cb p s r st j) = (promises st)[j := q]"
  using worker_frame [of cb "generateSingleImage (env j) p s r" st q st']
  by (simp add: settle_def)

lemma settle_promises_other:
  "i \<noteq> j \<Longrightarrow> promises (settle env cb p s r st j) ! i = promises st ! i"
  by (cases "worker cb (generateSingleImage (env j) p s r) st") (simp add: settle_promises)

lemma foldl_settle_promises_other:
  "i \<notin> set rest \<Longrightarrow> promises (foldl (settle env cb p s r) st rest) ! i = promises st ! i"
  by (induction rest arbitrary: st) (simp_all add: settle_promises_other)

lemma worker_trace:
  assumes "progress_calls st = [1..<Suc (completed st)]" and "worker cb r st = (q, st')"
  shows "progress_calls st' = [1..<Suc (completed st')]"
  using assms
  by (auto simp: worker_def worker_catch_def count_and_report_def Let_def
      split: sum.splits option.splits)

lemma settle_trace:
  assumes "progress_calls st = [1..<Suc (completed st)]"
  shows "progress_calls (settle env cb p s r st i) = [1..<Suc (completed (settle env cb p s r st i))]"
proof -
  obtain q st' where w: "worker cb (generateSingleImage (env i) p s r) st = (q, st')"
    by (cases "worker cb (generateSingleImage (env i) p s r) st")
  from worker_trace [OF assms w] show ?thesis
    by (simp add: settle_def w)
qed

lemma foldl_settle_trace:
  "progress_calls st = [1..<Suc (completed st)] \<Longrightarrow>
   progress_calls (foldl (settle env cb p s r) st sched)
     = [1..<Suc (completed (foldl (settle env cb p s r) st sched))]"
  by (induction sched arbitrary: st) (simp_all add: settle_trace)

lemma run_batch_trace:
  "progress_calls (run_batch env cb p s count r sched)
     = [1..<Suc (completed (run_batch env cb p s count r sched))]"
  unfolding run_batch_def by (rule foldl_settle_trace) (simp add: initial_state_def)

lemma settle_slots_generated:
  assumes "slots_generated env p s r st"
  shows "slots_generated env p s r (settle env cb p s r st j)"
proof -
  obtain q st' where w: "worker cb (generateSingleImage (env j) p s r) st = (q, st')"
    by (cases "worker cb (generateSingleImage (env j) p s r) st")
  have eq: "promises (settle env cb p s r st j) = (promises st)[j := q]"
    using w by (rule settle_promises)
  show ?thesis
    unfolding slots_generated_def eq
  proof (intro allI impI, elim conjE)
    fix i img
    assume i: "i < length ((promises st)[j := q])" and f: "(promises st)[j := q] ! i = Fulfilled (Some img)"
    show "generateSingleImage (env i) p s r = Inr img"
    proof (cases "i = j")
      case True
      with i f have "q = Fulfilled (Some img)" by simp
      with w True show ?thesis using worker_image by blast
    next
      case False
      with i f assms show ?thesis by (simp add: slots_generated_def)
    qed
  qed
qed

lemma foldl_settle_slots_generated:
  "slots_generated env p s r st \<Longrightarrow> slots_generated env p s r (foldl (settle env cb p s r) st sched)"
  by (induction sched arbitrary: st) (simp_all add: settle_slots_generated)

lemma settle_length: "length (promises (settle env cb p s r st j)) = length (promises st)"
  by (cases "worker cb (generateSingleImage (env j) p s r) st") (simp add: settle_promises)

lemma foldl_settle_length:
  "length (promises (foldl (settle env cb p s r) st sched)) = length (promises st)"
  by (induction sched arbitrary: st) (simp_all add: settle_length)

lemma map_filter_indices:
  "List.map_filter (\<lambda>v. v) vs = map (\<lambda>i. the (vs ! i)) (filter (\<lambda>i. vs ! i \<noteq> None) [0..<length vs])"
proof -
  have "List.map_filter (\<lambda>v. v) vs = List.map_filter (\<lambda>v. v) (map ((!) vs) [0..<length vs])"
    by (simp add: map_nth)
  also have "\<dots> = List.map_filter ((!) vs) [0..<length vs]"
    by (rule map_filter_map)
  finally show ?thesis
    by (simp add: List.map_filter_def comp_def)
qed

lemma batch_images_in_request_order:
  assumes "generateBatchImages env cb p s count r sched = Some (Inr imgs)"
  shows "\<exists>idxs. sorted_wrt (<) idxs \<and> set idxs \<subseteq> {..<count}
           \<and> map (\<lambda>i. generateSingleImage (env i) p s r) idxs = map Inr imgs"
proof -
  let ?st = "run_batch env cb p s count r sched"
  have g: "slots_generated env p s r ?st"
    unfolding run_batch_def
    by (rule foldl_settle_slots_generated) (auto simp: slots_generated_def initial_state_def)
  have len: "length (promises ?st) = count"
    by (simp add: run_batch_def foldl_settle_length initial_state_def)
  from assms obtain vs where vs: "all_values (promises ?st) = Some vs" and imgs: "imgs = collect [] vs"
    by (auto simp: generateBatchImages_def batch_outcome_def split: option.splits)
  have ps: "promises ?st = map Fulfilled vs" by (rule all_values_Some [OF vs])
  with len have lv: "length vs = count" by (metis length_map)
  let ?idxs = "filter (\<lambda>i. vs ! i \<noteq> None) [0..<count]"
  have i1: "imgs = map (\<lambda>i. the (vs ! i)) ?idxs"
    using imgs lv by (simp add: collect_map_filter map_filter_indices)
  have "generateSingleImage (env i) p s r = Inr (the (vs ! i))" if "i \<in> set ?idxs" for i
  proof -
    from that have i: "i < count" and "vs ! i \<noteq> None" by auto
    then obtain img where "vs ! i = Some img" by auto
    with i lv ps have "promises ?st ! i = Fulfilled (Some img)" by simp
    with g i len have "generateSingleImage (env i) p s r = Inr img"
      by (simp add: slots_generated_def)
    with \<open>vs ! i = Some img\<close> show ?thesis by simp
  qed
  then have "map (\<lambda>i. generateSingleImage (env i) p s r) ?idxs = map Inr imgs"
    unfolding i1 by (simp add: comp_def)
  moreover have "sorted_wrt (<) ?idxs"
    by (rule sorted_wrt_filter) simp
  moreover have "set ?idxs \<subseteq> {..<count}" by auto
  ultimately show ?thesis by blast
qed

lemma batch_images_generated:
  assumes "generateBatchImages env cb p s count r sched = Some (Inr imgs)" and "img \<in> set imgs"
  shows "\<exists>i<count. generateSingleImage (env i) p s r = Inr img"
proof -
  from batch_images_in_request_order [OF assms(1)] obtain idxs where
    sub: "set idxs \<subseteq> {..<count}" and
    eq: "map (\<lambda>i. generateSingleImage (env i) p s r) idxs = map Inr imgs"
    by blast
  from assms(2) have "Inr img \<in> set (map (\<lambda>i. generateSingleImage (env i) p s r) idxs)"
    unfolding eq by simp
  then obtain i where "i \<in> set idxs" and "generateSingleImage (env i) p s r = Inr img"
    by auto
  with sub show ?thesis by auto
qed

lemma batch_outcome_rejected: "all_rejected st = Some e \<Longrightarrow> batch_outcome st = Some (Inl e)"
  by (simp add: batch_outcome_def)

section \<open>The claims\<close>

subsection \<open>The order of the returned list\<close>

text \<open>
  Claim C1, as the specification states it, fails. Two workers both succeed and worker 1
  settles before worker 0: \<^verbatim>\<open>Promise.all\<close> fulfils with the values in the order of the
  promise array, so the returned list starts with the image of worker 0, whereas the
  settlement order starts with the image of worker 1.
\<close>

theorem batch_settlement_order_counterexample:
  "generateBatchImages two_env never_throws ''a cat'' [] 2 ''1:1'' [1, 0]
     \<noteq> Some (Inr (settlement_order two_env ''a cat'' [] ''1:1'' [1, 0]))"
  by code_simp

text \<open>
  Claim C1, amended: the returned list is in request order, the order in which the workers
  were launched, whatever the order in which they settled. When every launched worker
  settles (the schedule lists each of the \<open>count\<close> workers once) and \<^verbatim>\<open>onProgress\<close>
  returns normally, \<^verbatim>\<open>generateBatchImages\<close> resolves with the successful results in request
  order. And whenever it resolves with a list, under any schedule and any callback, the
  elements of the list are, one by one, the results of successful generations of workers
  with strictly increasing indices.
\<close>

theorem batch_request_order:
  "((\<forall>h n. onProgress h n = None) \<and> distinct sched \<and> set sched = {..<count} \<longrightarrow>
      generateBatchImages env onProgress ptext systemInstruction count ratio sched
        = Some (Inr (request_order env ptext systemInstruction ratio count)))
   \<and> (generateBatchImages env onProgress ptext systemInstruction count ratio sched = Some (Inr imgs) \<longrightarrow>
        (\<exists>idxs. sorted_wrt (<) idxs \<and> set idxs \<subseteq> {..<count}
           \<and> map (\<lambda>i. generateSingleImage (env i) ptext systemInstruction ratio) idxs
               = map Inr imgs))"
proof (intro conjI impI)
  assume "(\<forall>h n. onProgress h n = None) \<and> distinct sched \<and> set sched = {..<count}"
  then show "generateBatchImages env onProgress ptext systemInstruction count ratio sched
        = Some (Inr (request_order env ptext systemInstruction ratio count))"
    by (simp add: batch_returns request_order_def)
next
  assume "generateBatchImages env onProgress ptext systemInstruction count ratio sched = Some (Inr imgs)"
  then show "\<exists>idxs. sorted_wrt (<) idxs \<and> set idxs \<subseteq> {..<count}
           \<and> map (\<lambda>i. generateSingleImage (env i) ptext systemInstruction ratio) idxs
               = map Inr imgs"
    by (rule batch_images_in_request_order)
qed

theorem batch_request_order_witness:
  "(\<forall>h n. never_throws h n = None) \<and> distinct [1, 0 :: nat] \<and> set [1, 0 :: nat] = {..<2}
   \<and> generateBatchImages two_env never_throws ''a cat'' [] 2 ''1:1'' [1, 0]
       = Some (Inr [\<lparr>id_field = ''id0'', base64 = ''data:image/png;base64,AAAA'',
                      prompt = ''a cat'', timestamp = 1700000000200, selected = False,
                      aspectRatio = ''1:1''\<rparr>,
                    \<lparr>id_field = ''id1'', base64 = ''data:image/png;base64,BBBB'',
                      prompt = ''a cat'', timestamp = 1700000000100, selected = False,
                      aspectRatio = ''1:1''\<rparr>])"
proof -
  have h: "\<forall>h n. never_throws h n = None" by (simp add: never_throws_def)
  have d: "distinct [1, 0 :: nat]" by simp
  have s: "set [1, 0 :: nat] = {..<2}" by auto
  have r: "request_order two_env ''a cat'' [] ''1:1'' 2 =
      [\<lparr>id_field = ''id0'', base64 = ''data:image/png;base64,AAAA'',
         prompt = ''a cat'', timestamp = 1700000000200, selected = False,
         aspectRatio = ''1:1''\<rparr>,
       \<lparr>id_field = ''id1'', base64 = ''data:image/png;base64,BBBB'',
         prompt = ''a cat'', timestamp = 1700000000100, selected = False,
         aspectRatio = ''1:1''\<rparr>]"
    by code_simp
  from batch_request_order [of never_throws "[1, 0]" 2 two_env "''a cat''" "[]" "''1:1''"] h d s r
  have res: "generateBatchImages two_env never_throws ''a cat'' [] 2 ''1:1'' [1, 0]
       = Some (Inr [\<lparr>id_field = ''id0'', base64 = ''data:image/png;base64,AAAA'',
                      prompt = ''a cat'', timestamp = 1700000000200, selected = False,
                      aspectRatio = ''1:1''\<rparr>,
                    \<lparr>id_field = ''id1'', base64 = ''data:image/png;base64,BBBB'',
                      prompt = ''a cat'', timestamp = 1700000000100, selected = False,
                      aspectRatio = ''1:1''\<rparr>])"
    by simp
  show ?thesis by (intro conjI h d s res)
qed

subsection \<open>The progress callback\<close>

text \<open>
  Claim C2, as the specification states it, fails when \<^verbatim>\<open>onProgress\<close> throws. One worker,
  whose generation succeeds, and a callback that throws on its first call only: the call
  at line 106 throws inside the \<^verbatim>\<open>try\<close> block, the \<^verbatim>\<open>catch\<close> clause counts the worker a
  second time and calls \<^verbatim>\<open>onProgress\<close> again. With \<open>count = 1\<close> the callback is invoked
  twice, with 1 and with 2.
\<close>

theorem progress_twice_counterexample:
  "progress_calls (run_batch two_env throws_first ''a cat'' [] 1 ''1:1'' [0]) = [1, 2]
   \<and> progress_calls (run_batch two_env throws_first ''a cat'' [] 1 ''1:1'' [0]) \<noteq> [1..<Suc 1]"
  by code_simp

text \<open>
  Claim C2, amended: when every launched worker settles (the schedule lists each of the
  \<open>count\<close> workers once) and \<^verbatim>\<open>onProgress\<close> returns normally from every invocation,
  \<^verbatim>\<open>generateBatchImages\<close> invokes it exactly \<open>count\<close> times, with the arguments
  1, 2, ..., \<open>count\<close> in this order, whatever the mix of successes and failures and
  whatever the order of settlement. With \<open>count = 0\<close>, and any callback, the callback is
  never invoked and the empty list is returned with no settlement to wait for. Under any
  callback and any schedule, the arguments of the successive invocations are 1, 2, 3, ...:
  the counter is incremented before each of them.
\<close>

theorem progress_exactly_count:
  "((\<forall>h n. onProgress h n = None) \<and> distinct sched \<and> set sched = {..<count} \<longrightarrow>
      progress_calls (run_batch env onProgress ptext systemInstruction count ratio sched) = [1..<Suc count]
      \<and> length (progress_calls (run_batch env onProgress ptext systemInstruction count ratio sched)) = count)
   \<and> progress_calls (run_batch env onProgress ptext systemInstruction count ratio sched)
       = [1..<Suc (completed (run_batch env onProgress ptext systemInstruction count ratio sched))]
   \<and> progress_calls (run_batch env onProgress ptext systemInstruction 0 ratio []) = []
   \<and> generateBatchImages env onProgress ptext systemInstruction 0 ratio [] = Some (Inr [])"
proof (intro conjI impI)
  assume a: "(\<forall>h n. onProgress h n = None) \<and> distinct sched \<and> set sched = {..<count}"
  then have len: "length sched = count" by (simp add: schedule_length)
  from a show p: "progress_calls (run_batch env onProgress ptext systemInstruction count ratio sched) = [1..<Suc count]"
    using run_batch_returns(4) [of onProgress sched count env ptext systemInstruction ratio] len
    by simp
  show "length (progress_calls (run_batch env onProgress ptext systemInstruction count ratio sched)) = count"
    by (simp only: p) simp
next
  show "progress_calls (run_batch env onProgress ptext systemInstruction count ratio sched)
       = [1..<Suc (completed (run_batch env onProgress ptext systemInstruction count ratio sched))]"
    by (rule run_batch_trace)
next
  show "progress_calls (run_batch env onProgress ptext systemInstruction 0 ratio []) = []"
    by (simp add: run_batch_def initial_state_def)
next
  show "generateBatchImages env onProgress ptext systemInstruction 0 ratio [] = Some (Inr [])"
    by (simp add: generateBatchImages_def batch_outcome_def run_batch_def initial_state_def)
qed

theorem progress_exactly_count_witness:
  "progress_calls (run_batch three_env never_throws ''a cat'' [] 3 ''1:1'' [2, 0, 1]) = [1, 2, 3]
   \<and> generateBatchImages three_env never_throws ''a cat'' [] 0 ''1:1'' [] = Some (Inr [])"
proof -
  have h: "(\<forall>h n. never_throws h n = None) \<and> distinct [2, 0, 1 :: nat] \<and> set [2, 0, 1 :: nat] = {..<3}"
    by (auto simp: never_throws_def)
  have u: "[1..<Suc 3] = [1, 2, 3]" by code_simp
  from progress_exactly_count [of never_throws "[2, 0, 1]" 3 three_env "''a cat''" "[]" "''1:1''"] h u
  show ?thesis by simp
qed

subsection \<open>The length and the elements of the returned list\<close>

text \<open>
  Claim C3, as the specification states it, fails when \<^verbatim>\<open>onProgress\<close> throws. Two workers
  that both succeed (\<open>k = 2\<close>) and settle in request order, and a callback that throws
  on its first call only: the \<^verbatim>\<open>catch\<close> clause of worker 0 returns \<^verbatim>\<open>null\<close> in place of
  its image, and the returned list has one element.
\<close>

theorem batch_length_counterexample:
  "success_count two_env ''a cat'' [] ''1:1'' 2 = 2
   \<and> generateBatchImages two_env throws_first ''a cat'' [] 2 ''1:1'' [0, 1]
       = Some (Inr [\<lparr>id_field = ''id1'', base64 = ''data:image/png;base64,BBBB'',
                      prompt = ''a cat'', timestamp = 1700000000100, selected = False,
                      aspectRatio = ''1:1''\<rparr>])"
  by code_simp

text \<open>
  Claim C3, amended: when every launched worker settles and \<^verbatim>\<open>onProgress\<close> returns
  normally from every invocation, \<^verbatim>\<open>generateBatchImages\<close> resolves with a list whose length
  is the number \<open>k\<close> of workers whose generation succeeds, under any order of
  settlement, and every element of the list is the image of a successful generation of
  one of the \<open>count\<close> workers.
\<close>

theorem batch_length_successes:
  assumes "\<forall>h n. onProgress h n = None" and "distinct sched" and "set sched = {..<count}"
  shows "\<exists>imgs. generateBatchImages env onProgress ptext systemInstruction count ratio sched = Some (Inr imgs)
           \<and> length imgs = success_count env ptext systemInstruction ratio count
           \<and> (\<forall>img\<in>set imgs. \<exists>i<count. generateSingleImage (env i) ptext systemInstruction ratio = Inr img)"
proof (intro exI conjI)
  show "generateBatchImages env onProgress ptext systemInstruction count ratio sched
          = Some (Inr (successes env ptext systemInstruction ratio [0..<count]))"
    using assms by (simp add: batch_returns)
  show "length (successes env ptext systemInstruction ratio [0..<count])
          = success_count env ptext systemInstruction ratio count"
    by (simp add: length_successes success_count_def)
  show "\<forall>img\<in>set (successes env ptext systemInstruction ratio [0..<count]).
          \<exists>i<count. generateSingleImage (env i) ptext systemInstruction ratio = Inr img"
    by (auto simp: set_successes)
qed

theorem batch_length_successes_witness:
  "success_count three_env ''a cat'' [] ''1:1'' 3 = 2
   \<and> (\<exists>imgs. generateBatchImages three_env never_throws ''a cat'' [] 3 ''1:1'' [1, 2, 0] = Some (Inr imgs)
         \<and> length imgs = 2)"
proof -
  have h: "\<forall>h n. never_throws h n = None" by (simp add: never_throws_def)
  have d: "distinct [1, 2, 0 :: nat]" by simp
  have s: "set [1, 2, 0 :: nat] = {..<3}" by auto
  have k: "success_count three_env ''a cat'' [] ''1:1'' 3 = 2" by code_simp
  from batch_length_successes [OF h d s, of three_env "''a cat''" "[]" "''1:1''"] k
  show ?thesis by auto
qed

subsection \<open>Failures are absorbed\<close>

text \<open>
  Claim C4, as the specification states it, fails when \<^verbatim>\<open>onProgress\<close> throws. One worker,
  whose generation fails, and a callback that throws: nothing guards the call of
  \<^verbatim>\<open>onProgress\<close> in the \<^verbatim>\<open>catch\<close> clause (line 111), so what it throws rejects the worker's
  promise, \<^verbatim>\<open>Promise.all\<close> and \<^verbatim>\<open>generateBatchImages\<close>.
\<close>

theorem batch_rejects_counterexample:
  "generateBatchImages all_failing_env always_throws ''a cat'' [] 1 ''1:1'' [0]
     = Some (Inl (Error (Some ''render failed'')))"
  by code_simp

text \<open>
  Claim C4, amended: when every launched worker settles and \<^verbatim>\<open>onProgress\<close> returns
  normally from every invocation, \<^verbatim>\<open>generateBatchImages\<close> does not reject: it resolves with
  a list, which holds the image of every worker whose generation succeeds, whatever
  becomes of the other workers, and which is empty when every generation fails.
\<close>

theorem batch_never_raises:
  assumes "\<forall>h n. onProgress h n = None" and "distinct sched" and "set sched = {..<count}"
  shows "\<exists>imgs. generateBatchImages env onProgress ptext systemInstruction count ratio sched = Some (Inr imgs)
           \<and> (\<forall>i<count. \<forall>img. generateSingleImage (env i) ptext systemInstruction ratio = Inr img
                  \<longrightarrow> img \<in> set imgs)
           \<and> ((\<forall>i<count. \<exists>e. generateSingleImage (env i) ptext systemInstruction ratio = Inl e)
                  \<longrightarrow> imgs = [])"
proof (intro exI conjI)
  let ?imgs = "successes env ptext systemInstruction ratio [0..<count]"
  show "generateBatchImages env onProgress ptext systemInstruction count ratio sched = Some (Inr ?imgs)"
    using assms by (simp add: batch_returns)
  show "\<forall>i<count. \<forall>img. generateSingleImage (env i) ptext systemInstruction ratio = Inr img
          \<longrightarrow> img \<in> set ?imgs"
    by (auto simp: set_successes)
  show "(\<forall>i<count. \<exists>e. generateSingleImage (env i) ptext systemInstruction ratio = Inl e) \<longrightarrow> ?imgs = []"
  proof
    assume f: "\<forall>i<count. \<exists>e. generateSingleImage (env i) ptext systemInstruction ratio = Inl e"
    have "set ?imgs = {}"
      using f by (auto simp: set_successes)
    then show "?imgs = []" by simp
  qed
qed

theorem batch_never_raises_witness:
  "generateBatchImages all_failing_env never_throws ''a cat'' [] 2 ''1:1'' [1, 0] = Some (Inr [])"
proof -
  have h: "\<forall>h n. never_throws h n = None" by (simp add: never_throws_def)
  have d: "distinct [1, 0 :: nat]" by simp
  have s: "set [1, 0 :: nat] = {..<2}" by auto
  have f: "\<forall>i<2. \<exists>e. generateSingleImage (all_failing_env i) ''a cat'' [] ''1:1'' = Inl e"
    by (simp add: all_failing_env_def failing_env_def generateSingleImage_def try_block_def)
  from batch_never_raises [OF h d s, of all_failing_env "''a cat''" "[]" "''1:1''"] f
  show ?thesis by auto
qed

subsection \<open>The instruction sent to the provider\<close>

text \<open>
  Claim C5: \<^verbatim>\<open>generateSingleImage\<close> goes by what the provider answers to the request that
  carries, as its text, for a non-empty \<^verbatim>\<open>systemInstruction\<close>, that instruction, two line
  feeds, the label \<^verbatim>\<open>User Request: \<close> and the prompt, in this order, and for an empty one
  the prompt as it is (with the model identifier, the requested ratio and the size
  \<^verbatim>\<open>1K\<close>). If the provider rejects this request, the call fails with the error of the
  \<^verbatim>\<open>catch\<close> clause for that rejection; if it resolves it, the call's result is the one
  computed from that response. Hence a provider that reports the text it was sent shows
  this very text.
\<close>

theorem combined_instruction:
  assumes "sent = \<lparr>model = ''gemini-3-pro-image-preview'', contents_text = instruction,
                    imageConfig_aspectRatio = ratio, imageConfig_imageSize = ''1K''\<rparr>"
    and "systemInstruction \<noteq> [] \<longrightarrow>
           instruction = systemInstruction @ [CHR 0x0A, CHR 0x0A] @ ''User Request: '' @ ptext"
    and "systemInstruction = [] \<longrightarrow> instruction = ptext"
  shows "(generateContent env sent = Rejects e \<longrightarrow>
            generateSingleImage env ptext systemInstruction ratio = Inl (rethrow e))
       \<and> (generateContent env sent = Resolves response \<longrightarrow>
            generateSingleImage env ptext systemInstruction ratio
              = (case parse_response response of
                   Inl e' \<Rightarrow> Inl (rethrow e')
                 | Inr d \<Rightarrow>
                     if d = [] then Inl (Error (Some ''No image data found in response''))
                     else Inr \<lparr>id_field = generateId env,
                               base64 = ''data:image/png;base64,'' @ d,
                               prompt = ptext, timestamp = date_now env,
                               selected = False, aspectRatio = ratio\<rparr>))"
proof -
  have sent: "request ptext systemInstruction ratio = sent"
    using assms by (cases "systemInstruction = []") (simp_all add: request_def fullPrompt_def)
  show ?thesis
  proof (intro conjI impI)
    assume "generateContent env sent = Rejects e"
    then show "generateSingleImage env ptext systemInstruction ratio = Inl (rethrow e)"
      by (simp add: generateSingleImage_def try_block_def sent)
  next
    assume "generateContent env sent = Resolves response"
    then show "generateSingleImage env ptext systemInstruction ratio
              = (case parse_response response of
                   Inl e' \<Rightarrow> Inl (rethrow e')
                 | Inr d \<Rightarrow>
                     if d = [] then Inl (Error (Some ''No image data found in response''))
                     else Inr \<lparr>id_field = generateId env,
                               base64 = ''data:image/png;base64,'' @ d,
                               prompt = ptext, timestamp = date_now env,
                               selected = False, aspectRatio = ratio\<rparr>)"
      by (simp add: generateSingleImage_def try_block_def sent split: sum.splits)
  qed
qed

theorem combined_instruction_witness:
  "generateSingleImage echo_env ''a cat'' ''Paint in oils.'' ''1:1''
     = Inl (Error (Some (''Paint in oils.'' @ [CHR 0x0A, CHR 0x0A] @ ''User Request: a cat'')))
   \<and> generateSingleImage echo_env ''a cat'' [] ''1:1'' = Inl (Error (Some ''a cat''))"
proof -
  let ?persona = "''Paint in oils.'' @ [CHR 0x0A, CHR 0x0A] @ ''User Request: '' @ ''a cat''"
  have echo: "generateContent echo_env
                \<lparr>model = ''gemini-3-pro-image-preview'', contents_text = t,
                 imageConfig_aspectRatio = ''1:1'', imageConfig_imageSize = ''1K''\<rparr>
              = Rejects (Error (Some t))" for t
    by (simp add: echo_env_def)
  have with_persona: "generateSingleImage echo_env ''a cat'' ''Paint in oils.'' ''1:1''
                        = Inl (rethrow (Error (Some ?persona)))"
    using combined_instruction [OF refl, of "''Paint in oils.''" ?persona "''a cat''" echo_env
        "''1:1''" "Error (Some ?persona)"] echo [of ?persona]
    by simp
  have without: "generateSingleImage echo_env ''a cat'' [] ''1:1''
                   = Inl (rethrow (Error (Some ''a cat'')))"
    using combined_instruction [OF refl, of "[]" "''a cat''" "''a cat''" echo_env
        "''1:1''" "Error (Some ''a cat'')"] echo [of "''a cat''"]
    by simp
  from with_persona without show ?thesis by simp
qed

subsection \<open>A response without image data\<close>

text \<open>
  Claim C6, as the specification states it, fails. The response has a text part and an
  inline-data part that declares \<^verbatim>\<open>text/plain\<close>: none of its parts carries inline image
  data, and yet \<^verbatim>\<open>generateSingleImage\<close> succeeds, with the payload of the \<^verbatim>\<open>text/plain\<close>
  part tagged as PNG (line 61 does not read the MIME type).
\<close>

theorem text_plain_payload_counterexample:
  "no_image_data [text_part ''Here is your cat'', inline_part ''text/plain'' ''bm90IGFuIGltYWdl'']
   \<and> generateSingleImage
        (answering_env [text_part ''Here is your cat'', inline_part ''text/plain'' ''bm90IGFuIGltYWdl'']
           ''id7'' 1700000000000)
        ''a cat'' [] ''1:1''
     = Inr \<lparr>id_field = ''id7'', base64 = ''data:image/png;base64,bm90IGFuIGltYWdl'',
            prompt = ''a cat'', timestamp = 1700000000000, selected = False,
            aspectRatio = ''1:1''\<rparr>"
  by code_simp

text \<open>
  Claim C6, amended: when the provider resolves with a response none of whose content
  parts carries a non-empty inline payload, of whatever declared MIME type,
  \<^verbatim>\<open>generateSingleImage\<close> fails with the error \<^verbatim>\<open>No image data found in response\<close>. The
  responses covered: the candidate list is absent; or the content of the first candidate
  has no parts list, an empty one, or parts none of which has inline data with a
  non-empty \<^verbatim>\<open>data\<close> (text parts, inline data whose \<^verbatim>\<open>data\<close> is absent or empty). A
  response with an empty candidate list, or whose first candidate has no content, fails
  too, with the message of the \<^verbatim>\<open>TypeError\<close> of the unchecked property access. And the
  call never succeeds with an empty payload: it succeeds only when some part of the
  first candidate has a non-empty inline payload, and the first such payload is the one
  wrapped.
\<close>

theorem no_inline_payload_fails:
  assumes "generateContent env (request ptext systemInstruction ratio) = Resolves response"
  shows "(candidates response = None \<or>
          (\<exists>c cs ct. candidates response = Some (c # cs) \<and> content c = Some ct \<and>
             (parts ct = None \<or>
              (\<exists>ps. parts ct = Some ps \<and> (\<forall>part\<in>set ps. inline_payload part = None)))) \<longrightarrow>
          generateSingleImage env ptext systemInstruction ratio
            = Inl (Error (Some ''No image data found in response'')))
       \<and> (candidates response = Some [] \<longrightarrow>
            generateSingleImage env ptext systemInstruction ratio
              = Inl (Error (Some (typeError_message ''undefined'' ''content''))))
       \<and> (\<forall>c cs. candidates response = Some (c # cs) \<and> content c = None \<longrightarrow>
            generateSingleImage env ptext systemInstruction ratio
              = Inl (Error (Some (typeError_message ''undefined'' ''parts''))))
       \<and> (\<forall>img. generateSingleImage env ptext systemInstruction ratio = Inr img \<longrightarrow>
            (\<exists>c cs ct ps before part rest d.
               candidates response = Some (c # cs) \<and> content c = Some ct \<and> parts ct = Some ps
               \<and> ps = before @ part # rest \<and> (\<forall>q\<in>set before. inline_payload q = None)
               \<and> inline_payload part = Some d \<and> d \<noteq> []
               \<and> base64 img = ''data:image/png;base64,'' @ d))"
proof (intro conjI impI allI)
  assume "candidates response = None \<or>
          (\<exists>c cs ct. candidates response = Some (c # cs) \<and> content c = Some ct \<and>
             (parts ct = None \<or>
              (\<exists>ps. parts ct = Some ps \<and> (\<forall>part\<in>set ps. inline_payload part = None))))"
  with assms show "generateSingleImage env ptext systemInstruction ratio
            = Inl (Error (Some ''No image data found in response''))"
    by (auto simp: generateSingleImage_def try_block_def parse_response_def scan_parts_none)
next
  assume "candidates response = Some []"
  with assms show "generateSingleImage env ptext systemInstruction ratio
              = Inl (Error (Some (typeError_message ''undefined'' ''content'')))"
    by (simp add: generateSingleImage_def try_block_def parse_response_def typeError_message_def)
next
  fix c cs assume "candidates response = Some (c # cs) \<and> content c = None"
  with assms show "generateSingleImage env ptext systemInstruction ratio
              = Inl (Error (Some (typeError_message ''undefined'' ''parts'')))"
    by (simp add: generateSingleImage_def try_block_def parse_response_def typeError_message_def)
next
  fix img assume ok: "generateSingleImage env ptext systemInstruction ratio = Inr img"
  from ok assms obtain d where d: "parse_response response = Inr d" "d \<noteq> []"
    and b: "base64 img = ''data:image/png;base64,'' @ d"
    by (elim generateSingleImage_Inr) auto
  from d obtain c cs ct ps where shape: "candidates response = Some (c # cs)" "content c = Some ct"
      "parts ct = Some ps" and sc: "scan_parts [] ps = d"
    by (auto simp: parse_response_def split: option.splits list.splits)
  from sc d(2) obtain before part rest where
    "ps = before @ part # rest" "\<forall>q\<in>set before. inline_payload q = None"
    "inline_payload part = Some d"
    by (rule scan_parts_found)
  with shape d(2) b
  show "\<exists>c cs ct ps before part rest d.
               candidates response = Some (c # cs) \<and> content c = Some ct \<and> parts ct = Some ps
               \<and> ps = before @ part # rest \<and> (\<forall>q\<in>set before. inline_payload q = None)
               \<and> inline_payload part = Some d \<and> d \<noteq> []
               \<and> base64 img = ''data:image/png;base64,'' @ d"
    by blast
qed

theorem no_inline_payload_fails_witness:
  "generateSingleImage
     (answering_env [text_part ''I cannot draw that'',
        \<lparr>part_text = None, inlineData = Some \<lparr>mimeType = Some ''image/png'', data = Some []\<rparr>\<rparr>]
        ''id7'' 1700000000000) ''a cat'' [] ''1:1''
     = Inl (Error (Some ''No image data found in response''))
   \<and> generateSingleImage (answering_env [] ''id7'' 1700000000000) ''a cat'' [] ''1:1''
     = Inl (Error (Some ''No image data found in response''))"
proof -
  let ?ps = "[text_part ''I cannot draw that'',
        \<lparr>part_text = None, inlineData = Some \<lparr>mimeType = Some ''image/png'', data = Some []\<rparr>\<rparr>]"
  have 1: "generateContent (answering_env ps ''id7'' 1700000000000) (request ''a cat'' [] ''1:1'')
             = Resolves (response_of ps)" for ps
    by (simp add: answering_env_def)
  have 2: "candidates (response_of ps) = None \<or>
         (\<exists>c cs ct. candidates (response_of ps) = Some (c # cs) \<and> content c = Some ct \<and>
            (parts ct = None \<or>
             (\<exists>qs. parts ct = Some qs \<and> (\<forall>part\<in>set qs. inline_payload part = None))))"
    if "\<forall>part\<in>set ps. inline_payload part = None" for ps
    using that by (simp add: response_of_def)
  have 3: "\<forall>part\<in>set ?ps. inline_payload part = None"
    by (simp add: inline_payload_def text_part_def)
  have 4: "\<forall>part\<in>set ([] :: Part list). inline_payload part = None"
    by simp
  from no_inline_payload_fails [OF 1 [of ?ps]] 2 [OF 3]
  have a: "generateSingleImage (answering_env ?ps ''id7'' 1700000000000) ''a cat'' [] ''1:1''
             = Inl (Error (Some ''No image data found in response''))"
    by blast
  from no_inline_payload_fails [OF 1 [of "[]"]] 2 [OF 4]
  have b: "generateSingleImage (answering_env [] ''id7'' 1700000000000) ''a cat'' [] ''1:1''
             = Inl (Error (Some ''No image data found in response''))"
    by blast
  from a b show ?thesis by simp
qed

subsection \<open>The record of a success\<close>



subsection \<open>The selection flag\<close>

text \<open>
  Claim C8, as the specification states it, fails: the interface \<^verbatim>\<open>GeneratedImage\<close>
  declares \<^verbatim>\<open>selected: boolean\<close>, the object literal of lines 72--79 sets
  \<^verbatim>\<open>selected: false\<close>, and the object returned has the property \<^verbatim>\<open>selected\<close>.
\<close>

theorem selected_present_counterexample:
  "generateSingleImage (two_env 0) ''a cat'' [] ''1:1''
     = Inr \<lparr>id_field = ''id0'', base64 = ''data:image/png;base64,AAAA'', prompt = ''a cat'',
            timestamp = 1700000000200, selected = False, aspectRatio = ''1:1''\<rparr>
   \<and> map_of (properties \<lparr>id_field = ''id0'', base64 = ''data:image/png;base64,AAAA'', prompt = ''a cat'',
            timestamp = 1700000000200, selected = False, aspectRatio = ''1:1''\<rparr>) ''selected''
     = Some (JBoolean False)"
  by code_simp

text \<open>
  Claim C8, amended: every \<^verbatim>\<open>GeneratedImage\<close> that \<^verbatim>\<open>generateSingleImage\<close> or
  \<^verbatim>\<open>generateBatchImages\<close> returns carries the field \<^verbatim>\<open>selected\<close>, with the value
  \<^verbatim>\<open>false\<close>.
\<close>

theorem selected_false:
  "(generateSingleImage env ptext systemInstruction ratio = Inr img \<longrightarrow>
      selected img = False \<and> map_of (properties img) ''selected'' = Some (JBoolean False))
   \<and> (generateBatchImages envs onProgress ptext systemInstruction count ratio sched = Some (Inr imgs) \<longrightarrow>
      (\<forall>img\<in>set imgs. selected img = False
          \<and> map_of (properties img) ''selected'' = Some (JBoolean False)))"
proof -
  have one: "selected img = False \<and> map_of (properties img) ''selected'' = Some (JBoolean False)"
    if "generateSingleImage env ptext systemInstruction ratio = Inr img" for env img
    using that by (elim generateSingleImage_Inr) (simp add: properties_def)
  show ?thesis
    using one batch_images_generated [of envs onProgress ptext systemInstruction count ratio sched imgs]
    by blast
qed

theorem selected_false_witness:
  "map_of (properties \<lparr>id_field = ''id0'', base64 = ''data:image/png;base64,AAAA'', prompt = ''a cat'',
            timestamp = 1700000000200, selected = False, aspectRatio = ''1:1''\<rparr>) ''selected''
     = Some (JBoolean False)
   \<and> list_all (\<lambda>img. selected img = False)
       [\<lparr>id_field = ''id0'', base64 = ''data:image/png;base64,AAAA'',
                      prompt = ''a cat'', timestamp = 1700000000200, selected = False,
                      aspectRatio = ''1:1''\<rparr>,
                    \<lparr>id_field = ''id1'', base64 = ''data:image/png;base64,BBBB'',
                      prompt = ''a cat'', timestamp = 1700000000100, selected = False,
                      aspectRatio = ''1:1''\<rparr>]"
proof -
  have g: "generateSingleImage (two_env 0) ''a cat'' [] ''1:1''
     = Inr \<lparr>id_field = ''id0'', base64 = ''data:image/png;base64,AAAA'', prompt = ''a cat'',
            timestamp = 1700000000200, selected = False, aspectRatio = ''1:1''\<rparr>"
    by code_simp
  have b: "generateBatchImages two_env never_throws ''a cat'' [] 2 ''1:1'' [1, 0]
       = Some (Inr [\<lparr>id_field = ''id0'', base64 = ''data:image/png;base64,AAAA'',
                      prompt = ''a cat'', timestamp = 1700000000200, selected = False,
                      aspectRatio = ''1:1''\<rparr>,
                    \<lparr>id_field = ''id1'', base64 = ''data:image/png;base64,BBBB'',
                      prompt = ''a cat'', timestamp = 1700000000100, selected = False,
                      aspectRatio = ''1:1''\<rparr>])"
    by code_simp
  from selected_false [of "two_env 0" "''a cat''" "[]" "''1:1''" _ two_env never_throws 2 "[1, 0]"] g b
  show ?thesis by (simp add: properties_def)
qed

subsection \<open>The MIME type is not inspected\<close>

text \<open>
  Claim C9: the first part whose inline data has a non-empty \<^verbatim>\<open>data\<close> is taken as the
  image, whatever MIME type it declares and whatever parts follow it (an image part
  among them or not), and the result is tagged as PNG.
\<close>

theorem first_inline_data_wins:
  assumes "generateContent env (request ptext systemInstruction ratio) = Resolves response"
    and "candidates response = Some (c # cs)" and "content c = Some ct"
    and "parts ct = Some (before @ part # rest)"
    and "\<forall>q\<in>set before. inline_payload q = None"
    and "inlineData part = Some \<lparr>mimeType = mime, data = Some d\<rparr>" and "d \<noteq> []"
  shows "generateSingleImage env ptext systemInstruction ratio
           = Inr \<lparr>id_field = generateId env, base64 = ''data:image/png;base64,'' @ d,
                  prompt = ptext, timestamp = date_now env, selected = False,
                  aspectRatio = ratio\<rparr>"
proof -
  have "inline_payload part = Some d"
    using assms(6,7) by (simp add: inline_payload_def)
  with assms(5) have "scan_parts [] (before @ part # rest) = d"
    by (rule scan_parts_first)
  with assms show ?thesis
    by (simp add: generateSingleImage_def try_block_def parse_response_def)
qed

theorem first_inline_data_wins_witness:
  "generateSingleImage
     (answering_env [text_part ''Here is your cat'', inline_part ''text/plain'' ''bm90IGFuIGltYWdl'',
                     inline_part ''image/png'' ''iVBORw0KGgo''] ''id9'' 1700000000000)
     ''a cat'' [] ''1:1''
   = Inr \<lparr>id_field = ''id9'', base64 = ''data:image/png;base64,bm90IGFuIGltYWdl'',
          prompt = ''a cat'', timestamp = 1700000000000, selected = False, aspectRatio = ''1:1''\<rparr>"
proof -
  let ?env = "answering_env [text_part ''Here is your cat'', inline_part ''text/plain'' ''bm90IGFuIGltYWdl'',
                     inline_part ''image/png'' ''iVBORw0KGgo''] ''id9'' 1700000000000"
  let ?ct = "\<lparr>parts = Some ([text_part ''Here is your cat''] @ inline_part ''text/plain'' ''bm90IGFuIGltYWdl''
                     # [inline_part ''image/png'' ''iVBORw0KGgo''])\<rparr>"
  have 1: "generateContent ?env (request ''a cat'' [] ''1:1'')
             = Resolves \<lparr>candidates = Some (\<lparr>content = Some ?ct\<rparr> # [])\<rparr>"
    by (simp add: answering_env_def response_of_def)
  have 2: "candidates \<lparr>candidates = Some (\<lparr>content = Some ?ct\<rparr> # [])\<rparr> = Some (\<lparr>content = Some ?ct\<rparr> # [])"
    by simp
  have 3: "content \<lparr>content = Some ?ct\<rparr> = Some ?ct" by simp
  have 4: "parts ?ct = Some ([text_part ''Here is your cat''] @ inline_part ''text/plain'' ''bm90IGFuIGltYWdl''
                     # [inline_part ''image/png'' ''iVBORw0KGgo''])" by simp
  have 5: "\<forall>q\<in>set [text_part ''Here is your cat'']. inline_payload q = None"
    by (simp add: text_part_def inline_payload_def)
  have 6: "inlineData (inline_part ''text/plain'' ''bm90IGFuIGltYWdl'')
             = Some \<lparr>mimeType = Some ''text/plain'', data = Some ''bm90IGFuIGltYWdl''\<rparr>"
    by (simp add: inline_part_def)
  have 7: "''bm90IGFuIGltYWdl'' \<noteq> []" by simp
  from first_inline_data_wins [OF 1 2 3 4 5 6 7] show ?thesis
    by (simp add: answering_env_def)
qed

subsection \<open>A callback that throws after a success\<close>

text \<open>
  Claim C10: worker \<open>i\<close> has generated its image and \<^verbatim>\<open>onProgress\<close> throws when invoked
  for it (line 106). Then the counter is incremented a second time and \<^verbatim>\<open>onProgress\<close> is
  invoked a second time for the same worker (lines 110--111). If this second call returns,
  the worker fulfils with \<^verbatim>\<open>null\<close>: its slot of the promise array holds \<^verbatim>\<open>null\<close> for good,
  so the image is not in the returned list. If the second call throws \<open>e'\<close>, the worker
  rejects with \<open>e'\<close> and \<^verbatim>\<open>generateBatchImages\<close> rejects, whatever settles afterwards,
  with \<open>e'\<close> itself when nothing had rejected before.
\<close>

theorem onProgress_throws_after_success:
  assumes gen: "generateSingleImage (env i) ptext systemInstruction ratio = Inr img"
    and throws: "onProgress (progress_calls st) (Suc (completed st)) = Some e"
    and st': "st' = settle env onProgress ptext systemInstruction ratio st i"
    and again: "again = onProgress (progress_calls st @ [Suc (completed st)]) (Suc (Suc (completed st)))"
  shows "completed st' = completed st + 2
       \<and> progress_calls st' = progress_calls st @ [Suc (completed st), Suc (Suc (completed st))]
       \<and> (again = None \<longrightarrow>
            promises st' = (promises st)[i := Fulfilled None]
            \<and> (i < length (promises st) \<and> i \<notin> set rest \<longrightarrow>
                 promises (foldl (settle env onProgress ptext systemInstruction ratio) st' rest) ! i
                   = Fulfilled None))
       \<and> (\<forall>e'. again = Some e' \<longrightarrow>
            promises st' = (promises st)[i := Rejected e']
            \<and> (\<exists>e''. batch_outcome (foldl (settle env onProgress ptext systemInstruction ratio) st' rest)
                        = Some (Inl e''))
            \<and> (all_rejected st = None \<longrightarrow>
                 batch_outcome (foldl (settle env onProgress ptext systemInstruction ratio) st' rest)
                   = Some (Inl e')))"
proof -
  let ?st1 = "st\<lparr>completed := Suc (completed st), progress_calls := progress_calls st @ [Suc (completed st)]\<rparr>"
  let ?st2 = "?st1\<lparr>completed := Suc (Suc (completed st)),
                    progress_calls := progress_calls st @ [Suc (completed st), Suc (Suc (completed st))]\<rparr>"
  have first: "count_and_report onProgress st = (Some e, ?st1)"
    using throws by (simp add: count_and_report_def)
  have second: "count_and_report onProgress ?st1 = (again, ?st2)"
    using again by (simp add: count_and_report_def)
  have w: "worker onProgress (Inr img) st
             = ((case again of None \<Rightarrow> Fulfilled None | Some e' \<Rightarrow> Rejected e'), ?st2)"
    by (simp add: worker_def worker_catch_def first second split: option.splits)
  have c: "completed st' = completed st + 2"
    and p: "progress_calls st' = progress_calls st @ [Suc (completed st), Suc (Suc (completed st))]"
    and q: "promises st' = (promises st)[i := (case again of None \<Rightarrow> Fulfilled None | Some e' \<Rightarrow> Rejected e')]"
    by (simp_all add: st' settle_def gen w)
  have rej: "all_rejected st' = Some (case all_rejected st of Some e0 \<Rightarrow> e0 | None \<Rightarrow> e')"
    if "again = Some e'" for e'
    using that by (simp add: st' settle_def gen w split: option.splits)
  have none: "promises (foldl (settle env onProgress ptext systemInstruction ratio) st' rest) ! i = Fulfilled None"
    if "again = None" "i < length (promises st)" "i \<notin> set rest"
    using that q by (simp add: foldl_settle_promises_other)
  have out: "batch_outcome (foldl (settle env onProgress ptext systemInstruction ratio) st' rest)
               = Some (Inl (case all_rejected st of Some e0 \<Rightarrow> e0 | None \<Rightarrow> e'))"
    if "again = Some e'" for e'
    by (rule batch_outcome_rejected, rule foldl_settle_rejected_stable, rule rej [OF that])
  show ?thesis
  proof (intro conjI impI allI)
    show "completed st' = completed st + 2" by (rule c)
    show "progress_calls st' = progress_calls st @ [Suc (completed st), Suc (Suc (completed st))]"
      by (rule p)
    show "promises st' = (promises st)[i := Fulfilled None]" if "again = None"
      using q that by simp
    show "promises (foldl (settle env onProgress ptext systemInstruction ratio) st' rest) ! i = Fulfilled None"
      if "again = None" "i < length (promises st) \<and> i \<notin> set rest"
      using none that by simp
    show "promises st' = (promises st)[i := Rejected e']" if "again = Some e'" for e'
      using q that by simp
    show "\<exists>e''. batch_outcome (foldl (settle env onProgress ptext systemInstruction ratio) st' rest) = Some (Inl e'')"
      if "again = Some e'" for e'
      using out [OF that] by blast
    show "batch_outcome (foldl (settle env onProgress ptext systemInstruction ratio) st' rest) = Some (Inl e')"
      if "again = Some e'" "all_rejected st = None" for e'
      using out [OF that(1)] that(2) by simp
  qed
qed

theorem onProgress_throws_after_success_witness:
  "completed (run_batch two_env always_throws ''a cat'' [] 1 ''1:1'' [0]) = 2
   \<and> progress_calls (run_batch two_env always_throws ''a cat'' [] 1 ''1:1'' [0]) = [1, 2]
   \<and> promises (run_batch two_env always_throws ''a cat'' [] 1 ''1:1'' [0])
       = [Rejected (Error (Some ''render failed''))]
   \<and> generateBatchImages two_env always_throws ''a cat'' [] 1 ''1:1'' [0]
       = Some (Inl (Error (Some ''render failed'')))
   \<and> progress_calls (run_batch two_env throws_first ''a cat'' [] 1 ''1:1'' [0]) = [1, 2]
   \<and> promises (run_batch two_env throws_first ''a cat'' [] 1 ''1:1'' [0]) = [Fulfilled None]"
proof -
  have g: "generateSingleImage (two_env 0) ''a cat'' [] ''1:1''
     = Inr \<lparr>id_field = ''id0'', base64 = ''data:image/png;base64,AAAA'', prompt = ''a cat'',
            timestamp = 1700000000200, selected = False, aspectRatio = ''1:1''\<rparr>"
    by code_simp
  have t: "always_throws (progress_calls (initial_state 1)) (Suc (completed (initial_state 1)))
             = Some (Error (Some ''render failed''))"
    by (simp add: always_throws_def)
  have a: "Some (Error (Some ''render failed''))
             = always_throws (progress_calls (initial_state 1) @ [Suc (completed (initial_state 1))])
                 (Suc (Suc (completed (initial_state 1))))"
    by (simp add: always_throws_def)
  have t': "throws_first (progress_calls (initial_state 1)) (Suc (completed (initial_state 1)))
             = Some (Error (Some ''render failed''))"
    by (simp add: throws_first_def initial_state_def)
  have a': "None
             = throws_first (progress_calls (initial_state 1) @ [Suc (completed (initial_state 1))])
                 (Suc (Suc (completed (initial_state 1))))"
    by (simp add: throws_first_def)
  from onProgress_throws_after_success
         [where env = two_env and i = 0 and onProgress = always_throws
            and st = "initial_state 1" and rest = "[]", OF g t refl a]
       onProgress_throws_after_success
         [where env = two_env and i = 0 and onProgress = throws_first
            and st = "initial_state 1" and rest = "[]", OF g t' refl a']
  show ?thesis
    by (simp add: run_batch_def generateBatchImages_def initial_state_def)
qed

end
